theory Spec2Isabelle
  imports Main
begin

section \<open>Strings as the script sees them\<close>

text \<open>
  A JavaScript string is modelled as a \<open>string\<close>, one \<open>char\<close> per code unit
  (code units below 256). \<open>code c\<close> is the numeric value of a code unit.
\<close>

definition code :: "char \<Rightarrow> nat" where
  "code c = of_char c"

definition starts_with :: "string \<Rightarrow> string \<Rightarrow> bool" where
  "starts_with p s = (take (length p) s = p)"

text \<open>\<^verbatim>\<open>String.prototype.includes\<close>: the pattern occurs at some position.\<close>

fun includes_str :: "string \<Rightarrow> string \<Rightarrow> bool" where
  "includes_str p [] = starts_with p []"
| "includes_str p (c # cs) = (starts_with p (c # cs) \<or> includes_str p cs)"

text \<open>
  White space as \<^verbatim>\<open>String.prototype.trim\<close> strips it: tab, line feed, vertical tab, form
  feed, carriage return, space and no-break space (the white space and line terminator
  code units below 256).
\<close>

definition is_space :: "char \<Rightarrow> bool" where
  "is_space c = (code c = 9 \<or> code c = 10 \<or> code c = 11 \<or> code c = 12 \<or> code c = 13 \<or>
                 code c = 32 \<or> code c = 160)"

definition trim :: "string \<Rightarrow> string" where
  "trim s = rev (dropWhile is_space (rev (dropWhile is_space s)))"

text \<open>\<^verbatim>\<open>s.split(' ')\<close>: cut at every single space; the pieces may be empty, and the
  empty string gives one empty piece.\<close>

fun split_on :: "char \<Rightarrow> string \<Rightarrow> string list" where
  "split_on d [] = [[]]"
| "split_on d (c # cs) =
     (if c = d then [] # split_on d cs
      else (case split_on d cs of
              w # ws \<Rightarrow> (c # w) # ws
            | [] \<Rightarrow> [[c]]))"

text \<open>\<^verbatim>\<open>words.join(' ')\<close>.\<close>

fun join_with :: "string \<Rightarrow> string list \<Rightarrow> string" where
  "join_with sep [] = []"
| "join_with sep [w] = w"
| "join_with sep (w # ws) = w @ sep @ join_with sep ws"

section \<open>Regular expressions of chat.js\<close>

text \<open>
  The script's regular expressions are built from literals, one lazy group \<^verbatim>\<open>(.*?)\<close> and a
  tail. A tail is a function from the remaining input to the number of code units it
  consumes, or \<open>None\<close> when it does not match there.

  \<open>lazy_dot tail s\<close> is the backtracking search of \<^verbatim>\<open>(.*?)\<close> followed by \<open>tail\<close>: the
  group first tries to capture nothing and grows by one code unit each time the tail fails;
  \<^verbatim>\<open>.\<close> does not match a line terminator. The result is the capture and the number of code
  units consumed by capture and tail together.
\<close>

definition is_line_terminator :: "char \<Rightarrow> bool" where
  "is_line_terminator c = (code c = 10 \<or> code c = 13)"

fun lazy_dot :: "(string \<Rightarrow> nat option) \<Rightarrow> string \<Rightarrow> (string \<times> nat) option" where
  "lazy_dot tail [] = (case tail [] of Some n \<Rightarrow> Some ([], n) | None \<Rightarrow> None)"
| "lazy_dot tail (c # cs) =
     (case tail (c # cs) of
        Some n \<Rightarrow> Some ([], n)
      | None \<Rightarrow>
          if is_line_terminator c then None
          else (case lazy_dot tail cs of
                  Some (cap, n) \<Rightarrow> Some (c # cap, Suc n)
                | None \<Rightarrow> None))"

text \<open>The tail \<^verbatim>\<open>( ###)?\<close>: a greedy optional group, then the end of the pattern.\<close>

definition opt_trailer :: "string \<Rightarrow> nat option" where
  "opt_trailer s = Some (if starts_with '' ###'' s then 4 else 0)"

text \<open>The tail \<^verbatim>\<open>(\n|$)\<close>: a line feed, or else the end of the input (no \<^verbatim>\<open>m\<close> flag).\<close>

definition nl_or_end :: "string \<Rightarrow> nat option" where
  "nl_or_end s = (case s of [] \<Rightarrow> Some 0 | c # _ \<Rightarrow> if code c = 10 then Some 1 else None)"

text \<open>A literal tail such as \<^verbatim>\<open><\/li>\<close>.\<close>

definition lit_tail :: "string \<Rightarrow> string \<Rightarrow> nat option" where
  "lit_tail p s = (if starts_with p s then Some (length p) else None)"

text \<open>
  A matcher tries its pattern at the start of the input and gives the replacement text
  and the length of the match.
  \<^item> \<^verbatim>\<open>/### (.*?)( ###)?/\<close> replaced by \<^verbatim>\<open><h3>$1</h3>\<close>;
  \<^item> \<^verbatim>\<open>/- (.*?)(\n|$)/\<close> replaced by \<^verbatim>\<open><li>$1</li>\<close>;
  \<^item> \<^verbatim>\<open>/<li>(.*?)<\/li>/\<close> replaced by the match wrapped in \<^verbatim>\<open><ul>\<close> and \<^verbatim>\<open></ul>\<close>;
  \<^item> a literal pattern replaced by a fixed text.
\<close>

definition match_header :: "string \<Rightarrow> (string \<times> nat) option" where
  "match_header s =
     (if starts_with ''### '' s then
        (case lazy_dot opt_trailer (drop 4 s) of
           Some (cap, n) \<Rightarrow> Some (''<h3>'' @ cap @ ''</h3>'', 4 + n)
         | None \<Rightarrow> None)
      else None)"

definition match_bullet :: "string \<Rightarrow> (string \<times> nat) option" where
  "match_bullet s =
     (if starts_with ''- '' s then
        (case lazy_dot nl_or_end (drop 2 s) of
           Some (cap, n) \<Rightarrow> Some (''<li>'' @ cap @ ''</li>'', 2 + n)
         | None \<Rightarrow> None)
      else None)"

definition match_li :: "string \<Rightarrow> (string \<times> nat) option" where
  "match_li s =
     (if starts_with ''<li>'' s then
        (case lazy_dot (lit_tail ''</li>'') (drop 4 s) of
           Some (cap, n) \<Rightarrow> Some (''<ul>'' @ take (4 + n) s @ ''</ul>'', 4 + n)
         | None \<Rightarrow> None)
      else None)"

definition match_lit :: "string \<Rightarrow> string \<Rightarrow> string \<Rightarrow> (string \<times> nat) option" where
  "match_lit p rep s = (if starts_with p s then Some (rep, length p) else None)"

text \<open>
  \<^verbatim>\<open>s.replace(/.../g, ...)\<close>: scan from the left; where the matcher succeeds, emit the
  replacement and go on after the match; elsewhere copy one code unit. The counter is the
  number of code units of the last match still to be passed over.
\<close>

fun replace_from :: "(string \<Rightarrow> (string \<times> nat) option) \<Rightarrow> nat \<Rightarrow> string \<Rightarrow> string" where
  "replace_from m (Suc k) (c # cs) = replace_from m k cs"
| "replace_from m 0 (c # cs) =
     (case m (c # cs) of
        Some (rep, n) \<Rightarrow>
          (if n = 0 then rep @ c # replace_from m 0 cs
           else rep @ replace_from m (n - 1) cs)
      | None \<Rightarrow> c # replace_from m 0 cs)"
| "replace_from m k [] =
     (if k = 0 then (case m [] of Some (rep, n) \<Rightarrow> rep | None \<Rightarrow> []) else [])"

definition replace_all :: "(string \<Rightarrow> (string \<times> nat) option) \<Rightarrow> string \<Rightarrow> string" where
  "replace_all m s = replace_from m 0 s"

section \<open>chat.js: the message renderer\<close>

record message =
  role :: string
  content :: string
  timestamp :: string

text \<open>
  The outcome of looking up the sidebar title of a conversation (lines 52 to 54 of
  chat.js): \<^verbatim>\<open>document.querySelector\<close> throws on a selector it cannot parse, with the
  text of the error; or there is no item, or the item has no title element; or the title
  element of the item at an index of the sidebar is found.
\<close>

datatype lookup = Throws string | No_title | Title_of nat

text \<open>
  The browser's functions, as parameters: \<open>date_parse\<close> is the time value of
  \<^verbatim>\<open>new Date(s)\<close> (\<open>None\<close> for NaN, the Invalid Date), \<open>locale_time\<close> formats a valid
  time value as \<^verbatim>\<open>toLocaleTimeString([], {hour: '2-digit', minute: '2-digit'})\<close> does, and
  \<open>iso_string\<close> is \<^verbatim>\<open>toISOString\<close>. \<open>odd_selector\<close> is the outcome of the sidebar lookup
  for an identifier that does not stay inside the quotes of the selector built from it.
  \<open>inner_messages\<close> is the number of elements with the class token \<^verbatim>\<open>message\<close> that the
  HTML parser creates from a markup text. The current time value is passed to each
  handler.
\<close>

record host =
  date_parse :: "string \<Rightarrow> int option"
  locale_time :: "int \<Rightarrow> string"
  iso_string :: "int \<Rightarrow> string"
  odd_selector :: "string \<Rightarrow> (string \<times> string option) list \<Rightarrow> lookup"
  inner_messages :: "string \<Rightarrow> nat"

text \<open>\<^verbatim>\<open>new Date(s)\<close> for a string never throws: the time value is that of
  \<^verbatim>\<open>Date.parse\<close>, NaN for a string it does not recognise. The result is \<open>Inr\<close> of
  the time value; \<open>Inl\<close> would be an exception.\<close>

definition new_Date :: "host \<Rightarrow> string \<Rightarrow> string + int option" where
  "new_Date h s = Inr (date_parse h s)"

text \<open>\<^verbatim>\<open>Date.prototype.toLocaleTimeString\<close> returns the text "Invalid Date" for NaN.\<close>

definition toLocaleTimeString :: "host \<Rightarrow> int option \<Rightarrow> string" where
  "toLocaleTimeString h tv =
     (case tv of None \<Rightarrow> ''Invalid Date'' | Some t \<Rightarrow> locale_time h t)"

text \<open>The \<^verbatim>\<open>try\<close>/\<^verbatim>\<open>catch\<close> that computes \<^verbatim>\<open>timestampStr\<close>: the handler runs only
  when the block throws.\<close>

definition timestampStr :: "host \<Rightarrow> int \<Rightarrow> string \<Rightarrow> string" where
  "timestampStr h now ts =
     (case new_Date h ts of
        Inr d \<Rightarrow> toLocaleTimeString h d
      | Inl e \<Rightarrow> toLocaleTimeString h (Some now))"

definition format_assistant :: "string \<Rightarrow> string" where
  "format_assistant c0 =
     (let c1 = replace_all match_header c0;
          c2 = replace_all match_bullet c1;
          c3 = (if includes_str ''<li>'' c2
                then replace_all (match_lit ''</ul><ul>'' []) (replace_all match_li c2)
                else c2)
      in replace_all (match_lit [CHR 0x0A] ''<br>'')
           (replace_all (match_lit [CHR 0x0A, CHR 0x0A] ''<br><br>'') c3))"

definition formattedContent :: "message \<Rightarrow> string" where
  "formattedContent m =
     (if role m = ''assistant'' then format_assistant (content m) else content m)"

record element =
  className :: string
  innerHTML :: string

text \<open>The template literal assigned to \<^verbatim>\<open>messageElement.innerHTML\<close>.\<close>

definition message_html :: "string \<Rightarrow> string \<Rightarrow> string \<Rightarrow> string" where
  \<open>message_html r fc ts =
     ''\<newline>        <div class="message-avatar">'' @
     ''\<newline>            <div class="avatar '' @ (if r = ''assistant'' then ''assistant'' else ''user'') @ ''">'' @
     ''\<newline>                <i class="fas '' @ (if r = ''assistant'' then ''fa-robot'' else ''fa-user'') @ ''"></i>'' @
     ''\<newline>            </div>'' @
     ''\<newline>        </div>'' @
     ''\<newline>        <div class="message-bubble">'' @
     ''\<newline>            <div class="message-content">'' @ fc @ ''</div>'' @
     ''\<newline>            <div class="message-timestamp">'' @ ts @ ''</div>'' @
     ''\<newline>        </div>'' @
     ''\<newline>    ''\<close>

definition message_element :: "host \<Rightarrow> int \<Rightarrow> message \<Rightarrow> element" where
  "message_element h now m =
     \<lparr>className = ''message '' @ role m,
      innerHTML = message_html (role m) (formattedContent m) (timestampStr h now (timestamp m))\<rparr>"

text \<open>The template literal of \<^verbatim>\<open>showError\<close>.\<close>

definition error_element :: "string \<Rightarrow> element" where
  \<open>error_element msg =
     \<lparr>className = ''error-message'',
      innerHTML = ''\<newline>        <i class="fas fa-exclamation-circle"></i>'' @
                  ''\<newline>        <span>'' @ msg @ ''</span>'' @
                  ''\<newline>    ''\<rparr>\<close>

section \<open>chat.js: page state and effects\<close>

text \<open>
  A request sent by \<^verbatim>\<open>fetch\<close>: the conversation identifier in the URL and the
  \<^verbatim>\<open>message\<close> field of the JSON body. The body is also the \<^verbatim>\<open>messageText\<close> the
  completion handlers have captured.
\<close>

record request =
  req_conversation :: string
  req_body :: string

text \<open>
  How a request settles: either a JSON body \<^verbatim>\<open>data\<close> with its fields \<^verbatim>\<open>status\<close>,
  \<^verbatim>\<open>message\<close> and \<^verbatim>\<open>error\<close> (the last two may be missing), or a rejection (the
  transport failed or the body was not JSON) with the text of the error.
\<close>

datatype reply =
    Json string "message option" "string option"
  | Rejected string

datatype timer_action = Add_visible | Fade_error | Dispatch_submit

text \<open>What a handler does to the page and the network, in the order it does it.\<close>

datatype effect =
    Prevent_default
  | Set_input_disabled bool
  | Set_waiting bool
  | Update_status string string
  | Append_message message
  | Clear_input
  | Fetch request
  | Show_error string
  | Set_title string
  | Enable_feedback
  | Focus_input
  | Recognition_begin
  | Recognition_stop
  | Set_timeout nat timer_action

text \<open>
  The globals and elements the handlers read and write. \<open>currentConversationId\<close> is
  \<open>None\<close> for null; \<open>statusIndicator\<close> is \<open>None\<close> when the element is missing, else its
  state class and content; \<open>sidebar\<close> lists the conversation items by \<^verbatim>\<open>data-id\<close> with
  the text of their title element, if they have one; \<open>other_messages\<close> counts the
  elements with the class token \<^verbatim>\<open>message\<close> outside the message list; the elements the
  script uses without a test (the input, the title, the message list, the placeholder,
  the feedback button) are there; \<open>outstanding\<close> are the requests
  sent and not yet settled; \<open>log\<close> records the effects in order. Scrolling, the
  height of the input, the CSS classes of the placeholder, of the animations and of the
  voice indicator, and the removal of an error element after it has faded are not
  modelled.
\<close>

record chat_state =
  input_value :: string
  input_disabled :: bool
  isWaitingForResponse :: bool
  currentConversationId :: "string option"
  chatTitle :: string
  sidebar :: "(string \<times> string option) list"
  chatMessages :: "element list"
  other_messages :: nat
  feedback_disabled :: bool
  statusIndicator :: "(string \<times> string) option"
  recognition :: bool
  isRecording :: bool
  outstanding :: "request list"
  log :: "effect list"

definition emit :: "effect \<Rightarrow> chat_state \<Rightarrow> chat_state" where
  "emit e s = s\<lparr>log := log s @ [e]\<rparr>"

text \<open>Truthiness of the identifier: null and the empty string are falsy.\<close>

definition truthy_id :: "string option \<Rightarrow> bool" where
  "truthy_id i = (case i of None \<Rightarrow> False | Some t \<Rightarrow> t \<noteq> [])"

text \<open>The identifier as a template literal prints it.\<close>

definition id_text :: "string option \<Rightarrow> string" where
  "id_text i = (case i of None \<Rightarrow> ''null'' | Some t \<Rightarrow> t)"

definition updateStatus :: "string \<Rightarrow> string \<Rightarrow> chat_state \<Rightarrow> chat_state" where
  \<open>updateStatus msg state s =
     (case statusIndicator s of
        None \<Rightarrow> s
      | Some _ \<Rightarrow>
          (let icon =
                 (if state = ''ready'' then ''<i class="fas fa-check-circle"></i> ''
                  else if state = ''loading'' then ''<i class="fas fa-spinner fa-spin"></i> ''
                  else if state = ''error'' then ''<i class="fas fa-exclamation-circle"></i> ''
                  else []);
               cls =
                 (if state = ''ready'' \<or> state = ''loading'' \<or> state = ''error'' then state
                  else [])
           in emit (Update_status msg state) (s\<lparr>statusIndicator := Some (cls, icon @ msg)\<rparr>)))\<close>

text \<open>\<^verbatim>\<open>addMessage\<close>: nothing for a missing message; else one element appended to the
  list, and the timer of its animation set.\<close>

definition addMessage :: "host \<Rightarrow> int \<Rightarrow> message option \<Rightarrow> chat_state \<Rightarrow> chat_state" where
  "addMessage h now mo s =
     (case mo of
        None \<Rightarrow> s
      | Some m \<Rightarrow>
          emit (Set_timeout 10 Add_visible)
            (emit (Append_message m)
               (s\<lparr>chatMessages := chatMessages s @ [message_element h now m]\<rparr>)))"

definition showError :: "string \<Rightarrow> chat_state \<Rightarrow> chat_state" where
  "showError msg s =
     emit (Set_timeout 5000 Fade_error)
       (emit (Show_error msg)
          (s\<lparr>chatMessages := chatMessages s @ [error_element msg]\<rparr>))"

definition set_input_disabled :: "bool \<Rightarrow> chat_state \<Rightarrow> chat_state" where
  "set_input_disabled b s = emit (Set_input_disabled b) (s\<lparr>input_disabled := b\<rparr>)"

definition set_waiting :: "bool \<Rightarrow> chat_state \<Rightarrow> chat_state" where
  "set_waiting b s = emit (Set_waiting b) (s\<lparr>isWaitingForResponse := b\<rparr>)"

definition clear_input :: "chat_state \<Rightarrow> chat_state" where
  "clear_input s = emit Clear_input (s\<lparr>input_value := []\<rparr>)"

definition fetch :: "request \<Rightarrow> chat_state \<Rightarrow> chat_state" where
  "fetch r s = emit (Fetch r) (s\<lparr>outstanding := outstanding s @ [r]\<rparr>)"

section \<open>chat.js: handleSendMessage\<close>

text \<open>The synchronous part of \<^verbatim>\<open>handleSendMessage\<close>, up to and including the call of
  \<^verbatim>\<open>fetch\<close>.\<close>

definition handleSendMessage :: "host \<Rightarrow> int \<Rightarrow> chat_state \<Rightarrow> chat_state" where
  "handleSendMessage h now s0 =
     (let s = emit Prevent_default s0;
          messageText = trim (input_value s)
      in if messageText = [] \<or> isWaitingForResponse s \<or> \<not> truthy_id (currentConversationId s)
         then s
         else
           (let s = set_input_disabled True s;
                s = set_waiting True s;
                s = updateStatus ''Thinking...'' ''loading'' s;
                s = addMessage h now
                      (Some \<lparr>role = ''user'', content = messageText,
                             timestamp = iso_string h now\<rparr>) s;
                s = clear_input s
            in fetch \<lparr>req_conversation = id_text (currentConversationId s),
                      req_body = messageText\<rparr> s))"

text \<open>
  The selector of line 52 is \<^verbatim>\<open>.conversation-item[data-id="ID"]\<close> with the identifier
  pasted between the quotes. An identifier without a double quote, a backslash, a line
  break or a null character stays inside the quotes: the selector is valid and finds
  the first item with this \<^verbatim>\<open>data-id\<close>. For any other identifier the browser decides
  (\<open>odd_selector\<close>): the selector may be malformed, and then \<^verbatim>\<open>querySelector\<close> throws.
\<close>

definition plain_id :: "string \<Rightarrow> bool" where
  "plain_id i =
     list_all (\<lambda>c. code c \<noteq> 34 \<and> code c \<noteq> 92 \<and> code c \<noteq> 10 \<and> code c \<noteq> 12 \<and>
                    code c \<noteq> 13 \<and> code c \<noteq> 0) i"

fun first_item :: "string \<Rightarrow> (string \<times> string option) list \<Rightarrow> nat \<Rightarrow> lookup" where
  "first_item i [] k = No_title"
| "first_item i ((j, t) # items) k =
     (if j = i then (case t of None \<Rightarrow> No_title | Some _ \<Rightarrow> Title_of k)
      else first_item i items (Suc k))"

definition sidebar_lookup :: "host \<Rightarrow> string \<Rightarrow> (string \<times> string option) list \<Rightarrow> lookup" where
  "sidebar_lookup h i items =
     (if plain_id i then first_item i items 0 else odd_selector h i items)"

definition write_title :: "nat \<Rightarrow> string \<Rightarrow> (string \<times> string option) list \<Rightarrow>
    (string \<times> string option) list" where
  "write_title k t items =
     (if k < length items then items[k := (fst (items ! k), Some t)] else items)"

text \<open>
  The title update of lines 43 to 60. The result is the state reached and the error
  thrown, if any: the title of the page is written before the sidebar is looked up, so
  it stays written when the lookup throws.
\<close>

definition update_title :: "host \<Rightarrow> string \<Rightarrow> chat_state \<Rightarrow> chat_state \<times> string option" where
  "update_title h messageText s =
     (if chatTitle s = ''New Conversation'' then
        (let words = split_on CHR '' '' messageText
         in if 2 < length words then
              (let newTitle = join_with '' '' (take 5 words) @ ''...'';
                   s1 = emit (Set_title newTitle) (s\<lparr>chatTitle := newTitle\<rparr>)
               in case sidebar_lookup h (id_text (currentConversationId s1)) (sidebar s1) of
                    Throws e \<Rightarrow> (s1, Some e)
                  | No_title \<Rightarrow> (s1, None)
                  | Title_of k \<Rightarrow> (s1\<lparr>sidebar := write_title k newTitle (sidebar s1)\<rparr>, None))
            else (s, None))
      else (s, None))"

text \<open>The elements that \<^verbatim>\<open>querySelectorAll('.message')\<close> counts, those with the class
  token \<^verbatim>\<open>message\<close> in the whole document: the children of the message list with the
  token, the elements with the token that the markup of a child has created, and those
  elsewhere on the page.\<close>

fun tokens :: "(char \<Rightarrow> bool) \<Rightarrow> string \<Rightarrow> string \<Rightarrow> string list" where
  "tokens sep cur [] = (if cur = [] then [] else [rev cur])"
| "tokens sep cur (c # cs) =
     (if sep c then (if cur = [] then tokens sep [] cs else rev cur # tokens sep [] cs)
      else tokens sep (c # cur) cs)"

definition is_ascii_space :: "char \<Rightarrow> bool" where
  "is_ascii_space c = (code c = 9 \<or> code c = 10 \<or> code c = 12 \<or> code c = 13 \<or> code c = 32)"

definition class_tokens :: "string \<Rightarrow> string list" where
  "class_tokens cls = tokens is_ascii_space [] cls"

definition is_message :: "element \<Rightarrow> bool" where
  "is_message e = (''message'' \<in> set (class_tokens (className e)))"

definition messageCount :: "host \<Rightarrow> chat_state \<Rightarrow> nat" where
  "messageCount h s =
     length (filter is_message (chatMessages s)) +
     sum_list (map (\<lambda>e. inner_messages h (innerHTML e)) (chatMessages s)) +
     other_messages s"

definition enable_feedback :: "host \<Rightarrow> chat_state \<Rightarrow> chat_state" where
  "enable_feedback h s =
     (if 4 \<le> messageCount h s
      then emit Enable_feedback (s\<lparr>feedback_disabled := False\<rparr>)
      else s)"

definition error_text :: "string option \<Rightarrow> string \<Rightarrow> string" where
  "error_text e fallback = (case e of None \<Rightarrow> fallback | Some t \<Rightarrow> if t = [] then fallback else t)"

text \<open>The \<^verbatim>\<open>catch\<close> handler of lines 76 to 81, given the text of the error.\<close>

definition on_catch :: "string \<Rightarrow> chat_state \<Rightarrow> chat_state" where
  "on_catch msg s0 =
     (let s = set_input_disabled False s0;
          s = set_waiting False s;
          s = showError (''Error sending message: '' @ msg) s
      in updateStatus ''Error'' ''error'' s)"

text \<open>
  The completion of a request: the second \<^verbatim>\<open>then\<close> handler for a JSON body, the
  \<^verbatim>\<open>catch\<close> handler for a rejection. The \<^verbatim>\<open>catch\<close> is chained after the
  \<^verbatim>\<open>then\<close>, so an error thrown inside the success branch ends that branch where it is
  thrown and runs the \<^verbatim>\<open>catch\<close> handler on the state reached. A message of the reply,
  when there is one, has the three text fields of the record.
\<close>

definition on_reply :: "host \<Rightarrow> int \<Rightarrow> request \<Rightarrow> reply \<Rightarrow> chat_state \<Rightarrow> chat_state" where
  "on_reply h now req r s0 =
     (case r of
        Json st mo err \<Rightarrow>
          (let s = set_input_disabled False s0;
               s = set_waiting False s
           in if st = ''success'' then
                (let s = addMessage h now mo s
                 in case update_title h (req_body req) s of
                      (s, Some e) \<Rightarrow> on_catch e s
                    | (s, None) \<Rightarrow>
                        (let s = enable_feedback h s;
                             s = emit Focus_input s
                         in updateStatus ''Ready'' ''ready'' s))
              else
                (let s = showError (error_text err ''Failed to send message'') s
                 in updateStatus ''Error'' ''error'' s))
      | Rejected msg \<Rightarrow> on_catch msg s0)"

section \<open>chat.js: voice capture\<close>

definition stopVoiceInput :: "chat_state \<Rightarrow> chat_state" where
  "stopVoiceInput s0 =
     (if \<not> recognition s0 \<or> \<not> isRecording s0 then s0
      else
        (let s = emit Recognition_stop s0
         in if trim (input_value s) \<noteq> [] then emit (Set_timeout 300 Dispatch_submit) s
            else s))"

text \<open>\<^verbatim>\<open>toggleVoiceInput\<close>: the voice button starts the recognizer, or stops the
  capture as the stop button does.\<close>

definition toggleVoiceInput :: "chat_state \<Rightarrow> chat_state" where
  "toggleVoiceInput s =
     (if \<not> recognition s then s
      else if \<not> isRecording s then emit Recognition_begin s
      else stopVoiceInput s)"

text \<open>The handler of the recognizer's \<^verbatim>\<open>error\<close> event.\<close>

definition recognition_onerror :: "string \<Rightarrow> chat_state \<Rightarrow> chat_state" where
  "recognition_onerror err s =
     (let s = (if err = ''not-allowed''
               then showError ''Microphone access denied. Please check your browser permissions.'' s
               else showError (''Voice recognition error: '' @ err) s)
      in s\<lparr>isRecording := False\<rparr>)"

section \<open>The event loop\<close>

text \<open>
  The events that reach the handlers above: the form's submit event (from the user or
  from the timer of \<open>stopVoiceInput\<close>), the settling of the oldest outstanding request,
  a change of the input's text (typing, or a recognition result), the clicks on the stop
  button and on the voice button, and the recognizer's start, end and error events. Each event comes with the
  time at which it is handled.
\<close>

datatype event =
    Submit
  | Settle reply
  | Input string
  | Stop_voice
  | Toggle_voice
  | Recognition_start
  | Recognition_end
  | Recognition_error string

definition step :: "host \<Rightarrow> int \<times> event \<Rightarrow> chat_state \<Rightarrow> chat_state" where
  "step h te s =
     (case te of (now, e) \<Rightarrow>
        (case e of
           Submit \<Rightarrow> handleSendMessage h now s
         | Settle r \<Rightarrow>
             (case outstanding s of
                [] \<Rightarrow> s
              | req # rest \<Rightarrow> on_reply h now req r (s\<lparr>outstanding := rest\<rparr>))
         | Input t \<Rightarrow> s\<lparr>input_value := t\<rparr>
         | Stop_voice \<Rightarrow> stopVoiceInput s
         | Toggle_voice \<Rightarrow> toggleVoiceInput s
         | Recognition_start \<Rightarrow> s\<lparr>isRecording := True\<rparr>
         | Recognition_end \<Rightarrow> s\<lparr>isRecording := False\<rparr>
         | Recognition_error err \<Rightarrow> recognition_onerror err s))"

fun run :: "host \<Rightarrow> (int \<times> event) list \<Rightarrow> chat_state \<Rightarrow> chat_state" where
  "run h [] s = s"
| "run h (te # tes) s = run h tes (step h te s)"

text \<open>A page that has just loaded a new conversation, and a host used to evaluate the
  handlers on the concrete inputs below: its date functions know one timestamp, and its
  selector parser is asked about one identifier only, \<^verbatim>\<open>a"b\<close>, whose selector
  \<^verbatim>\<open>.conversation-item[data-id="a"b"]\<close> is malformed.\<close>

definition fresh_page :: "string option \<Rightarrow> chat_state" where
  "fresh_page cid =
     \<lparr>input_value = [], input_disabled = False, isWaitingForResponse = False,
      currentConversationId = cid, chatTitle = ''New Conversation'',
      sidebar = [], chatMessages = [], other_messages = 0, feedback_disabled = True,
      statusIndicator = Some (''ready'', []), recognition = True, isRecording = False,
      outstanding = [], log = []\<rparr>"

definition demo_host :: host where
  "demo_host =
     \<lparr>date_parse = (\<lambda>s. if s = ''2024-01-01T10:30:00.000Z'' then Some 1704105000000 else None),
      locale_time = (\<lambda>t. if t = 1704105000000 then ''10:30 AM'' else ''12:00 AM''),
      iso_string = (\<lambda>t. ''2024-01-01T10:30:00.000Z''),
      odd_selector = (\<lambda>i items. if i = [CHR ''a'', CHR 0x22, CHR ''b'']
                                   then Throws ''not a valid selector'' else No_title),
      inner_messages = (\<lambda>markup. 0)\<rparr>"

section \<open>Notions of the specification\<close>

text \<open>
  The specification speaks of the whitespace-separated tokens of a message and of content
  rendered as literal text. \<open>spec_ws_tokens\<close> are the maximal runs of code units that
  are not white space. \<open>spec_literal_text\<close> is the markup that displays a text
  literally when assigned as HTML: the characters \<^verbatim>\<open>&\<close>, \<^verbatim>\<open><\<close> and \<^verbatim>\<open>>\<close> are written
  as character references.
\<close>

definition spec_ws_tokens :: "string \<Rightarrow> string list" where
  "spec_ws_tokens s = tokens is_space [] s"

fun spec_literal_text :: "string \<Rightarrow> string" where
  "spec_literal_text [] = []"
| "spec_literal_text (c # cs) =
     (if c = CHR ''&'' then ''&amp;'' @ spec_literal_text cs
      else if c = CHR ''<'' then ''&lt;'' @ spec_literal_text cs
      else if c = CHR ''>'' then ''&gt;'' @ spec_literal_text cs
      else c # spec_literal_text cs)"

section \<open>signup.html: checkPasswordStrength\<close>

text \<open>The four character-class tests \<^verbatim>\<open>/[A-Z]/\<close>, \<^verbatim>\<open>/[a-z]/\<close>, \<^verbatim>\<open>/[0-9]/\<close> and
  \<^verbatim>\<open>/[^A-Za-z0-9]/\<close>, each asking whether some code unit of the password is in the class.\<close>

definition is_upper :: "char \<Rightarrow> bool" where
  "is_upper c = (65 \<le> code c \<and> code c \<le> 90)"

definition is_lower :: "char \<Rightarrow> bool" where
  "is_lower c = (97 \<le> code c \<and> code c \<le> 122)"

definition is_digit :: "char \<Rightarrow> bool" where
  "is_digit c = (48 \<le> code c \<and> code c \<le> 57)"

definition is_special :: "char \<Rightarrow> bool" where
  "is_special c = (\<not> is_upper c \<and> \<not> is_lower c \<and> \<not> is_digit c)"

definition bump :: "bool \<Rightarrow> nat \<Rightarrow> nat" where
  "bump b n = (if b then n + 1 else n)"

text \<open>The running total \<^verbatim>\<open>strength\<close>, in the order of the \<^verbatim>\<open>if\<close> statements.\<close>

definition strength :: "string \<Rightarrow> nat" where
  "strength password =
     (bump (list_ex is_special password)
     (bump (list_ex is_digit password)
     (bump (list_ex is_lower password)
     (bump (list_ex is_upper password)
     (bump (12 \<le> length password)
     (bump (8 \<le> length password) 0))))))"

definition strengthLevel :: "string \<Rightarrow> string" where
  "strengthLevel password =
     (if 5 \<le> strength password then ''Strong''
      else if 3 \<le> strength password then ''Medium''
      else ''Weak'')"

section \<open>States, requests and traces\<close>

text \<open>
  A submission is accepted when none of the three tests of the guard of
  \<^verbatim>\<open>handleSendMessage\<close> fires. \<open>echo\<close> is the message the handler then renders for the
  user and \<open>sent\<close> the request it sends.
\<close>

definition sendable :: "chat_state \<Rightarrow> bool" where
  "sendable s = (trim (input_value s) \<noteq> [] \<and> \<not> isWaitingForResponse s \<and>
                 truthy_id (currentConversationId s))"

definition echo :: "host \<Rightarrow> int \<Rightarrow> chat_state \<Rightarrow> message" where
  "echo h now s = \<lparr>role = ''user'', content = trim (input_value s), timestamp = iso_string h now\<rparr>"

definition sent :: "chat_state \<Rightarrow> request" where
  "sent s = \<lparr>req_conversation = id_text (currentConversationId s), req_body = trim (input_value s)\<rparr>"

definition status_effect :: "string \<Rightarrow> string \<Rightarrow> chat_state \<Rightarrow> effect list" where
  "status_effect msg state s = (case statusIndicator s of None \<Rightarrow> [] | Some _ \<Rightarrow> [Update_status msg state])"

text \<open>The messages rendered by \<open>addMessage\<close>, in order, read off a trace of effects.\<close>

fun appended :: "effect list \<Rightarrow> message list" where
  "appended [] = []"
| "appended (Append_message m # es) = m # appended es"
| "appended (e # es) = appended es"

text \<open>A reply is a failure when its status is not \<^verbatim>\<open>success\<close> or the request was
  rejected; \<open>failure_text\<close> is the text passed to \<open>showError\<close> then.\<close>

definition failed_reply :: "reply \<Rightarrow> bool" where
  "failed_reply r = (case r of Json st mo err \<Rightarrow> st \<noteq> ''success'' | Rejected msg \<Rightarrow> True)"

definition failure_text :: "reply \<Rightarrow> string" where
  "failure_text r =
     (case r of Json st mo err \<Rightarrow> error_text err ''Failed to send message''
      | Rejected msg \<Rightarrow> ''Error sending message: '' @ msg)"

text \<open>
  The error that the title update throws for the text of a request in a state, if any,
  and the error element that the \<^verbatim>\<open>catch\<close> handler then appends.
\<close>

definition lookup_error :: "host \<Rightarrow> request \<Rightarrow> chat_state \<Rightarrow> string option" where
  "lookup_error h req s = snd (update_title h (req_body req) s)"

definition caught_elements :: "string option \<Rightarrow> element list" where
  "caught_elements e =
     (case e of None \<Rightarrow> [] | Some msg \<Rightarrow> [error_element (''Error sending message: '' @ msg)])"

text \<open>
  The request discipline: at most one request is outstanding, and the input is disabled
  and the flag \<^verbatim>\<open>isWaitingForResponse\<close> set exactly when one is.
\<close>

definition one_in_flight :: "chat_state \<Rightarrow> bool" where
  "one_in_flight s =
     (length (outstanding s) \<le> 1 \<and>
      input_disabled s = (outstanding s \<noteq> []) \<and>
      isWaitingForResponse s = (outstanding s \<noteq> []))"

text \<open>While a request is outstanding, the last message rendered is the echo of its text.\<close>

definition echo_latest :: "chat_state \<Rightarrow> bool" where
  "echo_latest s =
     (outstanding s = [] \<or>
      (appended (log s) \<noteq> [] \<and>
       role (last (appended (log s))) = ''user'' \<and>
       content (last (appended (log s))) = req_body (hd (outstanding s))))"

definition in_order :: "chat_state \<Rightarrow> bool" where
  "in_order s = (one_in_flight s \<and> echo_latest s)"

text \<open>Concrete pages and replies on which the handlers are evaluated.\<close>

definition demo_input :: "string \<Rightarrow> string option \<Rightarrow> chat_state" where
  "demo_input t cid = (fresh_page cid)\<lparr>input_value := t\<rparr>"

definition demo_reply :: message where
  "demo_reply = \<lparr>role = ''assistant'', content = ''Hi there'',
                  timestamp = ''2024-01-01T10:30:00.000Z''\<rparr>"

definition demo_sent :: chat_state where
  "demo_sent = handleSendMessage demo_host 0 (demo_input ''hello'' (Some ''7''))"

definition demo_odd_id :: string where
  "demo_odd_id = [CHR ''a'', CHR 0x22, CHR ''b'']"

definition demo_request_odd :: request where
  "demo_request_odd = \<lparr>req_conversation = demo_odd_id, req_body = ''one two three''\<rparr>"

definition demo_sent_odd :: chat_state where
  "demo_sent_odd =
     handleSendMessage demo_host 0 (demo_input ''one two three'' (Some demo_odd_id))"

section \<open>Properties of the handlers\<close>

lemmas regex_defs = replace_all_def match_header_def match_bullet_def match_li_def match_lit_def
  opt_trailer_def nl_or_end_def lit_tail_def starts_with_def is_line_terminator_def code_def

lemmas prim_defs = emit_def set_input_disabled_def set_waiting_def clear_input_def fetch_def
  addMessage_def showError_def updateStatus_def

lemma handleSendMessage_blocked:
  "\<not> sendable s \<Longrightarrow> handleSendMessage h now s = s\<lparr>log := log s @ [Prevent_default]\<rparr>"
  by (auto simp add: handleSendMessage_def sendable_def emit_def Let_def)

lemma handleSendMessage_sendable:
  "sendable s \<Longrightarrow>
     input_value (handleSendMessage h now s) = [] \<and>
     input_disabled (handleSendMessage h now s) \<and>
     isWaitingForResponse (handleSendMessage h now s) \<and>
     currentConversationId (handleSendMessage h now s) = currentConversationId s \<and>
     chatTitle (handleSendMessage h now s) = chatTitle s \<and>
     sidebar (handleSendMessage h now s) = sidebar s \<and>
     chatMessages (handleSendMessage h now s) =
       chatMessages s @ [message_element h now (echo h now s)] \<and>
     outstanding (handleSendMessage h now s) = outstanding s @ [sent s] \<and>
     log (handleSendMessage h now s) =
       log s @ [Prevent_default, Set_input_disabled True, Set_waiting True] @
         status_effect ''Thinking...'' ''loading'' s @
         [Append_message (echo h now s), Set_timeout 10 Add_visible, Clear_input,
          Fetch (sent s)]"
  by (simp add: handleSendMessage_def sendable_def prim_defs Let_def echo_def sent_def status_effect_def
      split: option.splits)

lemma appended_append: "appended (xs @ ys) = appended xs @ appended ys"
  by (induction xs rule: appended.induct) simp_all

lemma appended_status_effect: "appended (status_effect msg st s) = []"
  by (simp add: status_effect_def split: option.splits)

lemma log_updateStatus: "log (updateStatus msg st s) = log s @ status_effect msg st s"
  by (simp add: updateStatus_def status_effect_def emit_def Let_def split: option.splits)

lemma updateStatus_frame:
  "input_disabled (updateStatus msg st s) = input_disabled s \<and>
   isWaitingForResponse (updateStatus msg st s) = isWaitingForResponse s \<and>
   outstanding (updateStatus msg st s) = outstanding s \<and>
   input_value (updateStatus msg st s) = input_value s \<and>
   chatMessages (updateStatus msg st s) = chatMessages s \<and>
   chatTitle (updateStatus msg st s) = chatTitle s \<and>
   sidebar (updateStatus msg st s) = sidebar s \<and>
   appended (log (updateStatus msg st s)) = appended (log s)"
  by (simp add: updateStatus_def emit_def Let_def appended_append split: option.splits)

lemma enable_feedback_frame:
  "input_disabled (enable_feedback h s) = input_disabled s \<and>
   isWaitingForResponse (enable_feedback h s) = isWaitingForResponse s \<and>
   outstanding (enable_feedback h s) = outstanding s \<and>
   input_value (enable_feedback h s) = input_value s \<and>
   chatMessages (enable_feedback h s) = chatMessages s \<and>
   chatTitle (enable_feedback h s) = chatTitle s \<and>
   appended (log (enable_feedback h s)) = appended (log s)"
  by (simp add: enable_feedback_def emit_def appended_append)

lemma addMessage_frame:
  "input_disabled (addMessage h now mo s) = input_disabled s \<and>
   isWaitingForResponse (addMessage h now mo s) = isWaitingForResponse s \<and>
   outstanding (addMessage h now mo s) = outstanding s \<and>
   input_value (addMessage h now mo s) = input_value s \<and>
   chatTitle (addMessage h now mo s) = chatTitle s \<and>
   sidebar (addMessage h now mo s) = sidebar s \<and>
   currentConversationId (addMessage h now mo s) = currentConversationId s"
  by (simp add: addMessage_def emit_def split: option.splits)

lemma update_title_frame:
  "input_disabled (fst (update_title h t s)) = input_disabled s \<and>
   isWaitingForResponse (fst (update_title h t s)) = isWaitingForResponse s \<and>
   outstanding (fst (update_title h t s)) = outstanding s \<and>
   input_value (fst (update_title h t s)) = input_value s \<and>
   chatMessages (fst (update_title h t s)) = chatMessages s \<and>
   appended (log (fst (update_title h t s))) = appended (log s)"
  by (simp add: update_title_def emit_def Let_def appended_append split: lookup.splits)

lemma chatTitle_update_title:
  "chatTitle (fst (update_title h t s)) =
     (if chatTitle s = ''New Conversation'' \<and> 2 < length (split_on CHR '' '' t)
      then join_with '' '' (take 5 (split_on CHR '' '' t)) @ ''...''
      else chatTitle s)"
  by (simp add: update_title_def emit_def Let_def split: lookup.splits)

lemma update_title_depends:
  "chatTitle s' = chatTitle s \<Longrightarrow> sidebar s' = sidebar s \<Longrightarrow>
     currentConversationId s' = currentConversationId s \<Longrightarrow>
     snd (update_title h t s') = snd (update_title h t s)"
  by (simp add: update_title_def emit_def Let_def split: lookup.splits)

lemma on_catch_fields:
  "\<not> input_disabled (on_catch msg s) \<and> \<not> isWaitingForResponse (on_catch msg s) \<and>
   outstanding (on_catch msg s) = outstanding s \<and>
   input_value (on_catch msg s) = input_value s \<and>
   chatTitle (on_catch msg s) = chatTitle s \<and>
   sidebar (on_catch msg s) = sidebar s \<and>
   chatMessages (on_catch msg s) =
     chatMessages s @ [error_element (''Error sending message: '' @ msg)] \<and>
   appended (log (on_catch msg s)) = appended (log s)"
  by (simp add: on_catch_def prim_defs Let_def appended_append split: option.splits)

lemma first_item_finds: "first_item i items k \<noteq> Throws e"
  by (induction items arbitrary: k) (auto split: option.splits if_splits)

lemma plain_id_no_error:
  "plain_id (id_text (currentConversationId s)) \<Longrightarrow> lookup_error h req s = None"
  by (simp add: lookup_error_def update_title_def sidebar_lookup_def emit_def Let_def
      first_item_finds split: lookup.splits)

lemma lookup_error_settled:
  "lookup_error h req (s\<lparr>outstanding := rest\<rparr>) = lookup_error h req s"
  unfolding lookup_error_def by (rule update_title_depends) simp_all

text \<open>The success branch, with the result of the title update named.\<close>

lemma on_reply_success_unfold:
  "on_reply h now req (Json ''success'' mo err) s =
     (case snd (update_title h (req_body req)
                  (addMessage h now mo (set_waiting False (set_input_disabled False s)))) of
        Some e \<Rightarrow>
          on_catch e (fst (update_title h (req_body req)
                        (addMessage h now mo (set_waiting False (set_input_disabled False s)))))
      | None \<Rightarrow>
          updateStatus ''Ready'' ''ready''
            (emit Focus_input
               (enable_feedback h
                  (fst (update_title h (req_body req)
                          (addMessage h now mo
                             (set_waiting False (set_input_disabled False s))))))))"
  by (simp add: on_reply_def Let_def split: prod.splits option.splits)

lemma lookup_error_after_addMessage:
  "snd (update_title h (req_body req)
          (addMessage h now mo (set_waiting False (set_input_disabled False s)))) =
   lookup_error h req s"
  unfolding lookup_error_def
  by (rule update_title_depends)
     (simp_all add: addMessage_frame set_waiting_def set_input_disabled_def emit_def)

lemma on_reply_flags:
  "\<not> input_disabled (on_reply h now req r s) \<and> \<not> isWaitingForResponse (on_reply h now req r s) \<and>
   outstanding (on_reply h now req r s) = outstanding s \<and>
   input_value (on_reply h now req r s) = input_value s"
proof (cases r)
  case (Json st mo err)
  show ?thesis
  proof (cases "st = ''success''")
    case True
    show ?thesis
      unfolding Json True on_reply_success_unfold
      by (simp add: on_catch_fields updateStatus_frame enable_feedback_frame update_title_frame
          addMessage_frame emit_def set_waiting_def set_input_disabled_def split: option.splits)
  next
    case False
    then show ?thesis
      by (simp add: Json on_reply_def prim_defs Let_def split: option.splits)
  qed
next
  case (Rejected msg)
  then show ?thesis
    by (simp add: on_reply_def on_catch_fields)
qed

lemma on_reply_failed:
  "failed_reply r \<Longrightarrow>
     chatMessages (on_reply h now req r s) = chatMessages s @ [error_element (failure_text r)] \<and>
     chatTitle (on_reply h now req r s) = chatTitle s \<and>
     sidebar (on_reply h now req r s) = sidebar s \<and>
     log (on_reply h now req r s) =
       log s @ [Set_input_disabled False, Set_waiting False, Show_error (failure_text r),
                Set_timeout 5000 Fade_error] @ status_effect ''Error'' ''error'' s"
  by (simp add: on_reply_def on_catch_def failed_reply_def failure_text_def prim_defs Let_def
      status_effect_def split: reply.splits option.splits)

lemma on_reply_success:
  "chatMessages (on_reply h now req (Json ''success'' (Some m) err) s) =
     chatMessages s @ [message_element h now m] @ caught_elements (lookup_error h req s) \<and>
   appended (log (on_reply h now req (Json ''success'' (Some m) err) s)) = appended (log s) @ [m]"
  unfolding on_reply_success_unfold lookup_error_after_addMessage
  by (simp add: on_catch_fields updateStatus_frame enable_feedback_frame update_title_frame
      caught_elements_def addMessage_def emit_def appended_append set_waiting_def
      set_input_disabled_def split: option.splits)

lemma on_reply_success_none:
  "chatMessages (on_reply h now req (Json ''success'' None err) s) =
     chatMessages s @ caught_elements (lookup_error h req s) \<and>
   appended (log (on_reply h now req (Json ''success'' None err) s)) = appended (log s)"
  unfolding on_reply_success_unfold lookup_error_after_addMessage
  by (simp add: on_catch_fields updateStatus_frame enable_feedback_frame update_title_frame
      caught_elements_def addMessage_def emit_def appended_append set_waiting_def
      set_input_disabled_def split: option.splits)

lemma on_reply_success_title:
  "chatTitle (on_reply h now req (Json ''success'' mo err) s) =
     (if chatTitle s = ''New Conversation'' \<and> 2 < length (split_on CHR '' '' (req_body req))
      then join_with '' '' (take 5 (split_on CHR '' '' (req_body req))) @ ''...''
      else chatTitle s)"
  unfolding on_reply_success_unfold
  by (simp add: on_catch_fields updateStatus_frame enable_feedback_frame chatTitle_update_title
      addMessage_frame emit_def set_waiting_def set_input_disabled_def split: option.splits)

lemma stopVoiceInput_frame:
  "outstanding (stopVoiceInput s) = outstanding s \<and>
   input_disabled (stopVoiceInput s) = input_disabled s \<and>
   isWaitingForResponse (stopVoiceInput s) = isWaitingForResponse s \<and>
   appended (log (stopVoiceInput s)) = appended (log s)"
  by (simp add: stopVoiceInput_def emit_def Let_def appended_append)

lemma toggleVoiceInput_frame:
  "outstanding (toggleVoiceInput s) = outstanding s \<and>
   input_disabled (toggleVoiceInput s) = input_disabled s \<and>
   isWaitingForResponse (toggleVoiceInput s) = isWaitingForResponse s \<and>
   appended (log (toggleVoiceInput s)) = appended (log s)"
  by (simp add: toggleVoiceInput_def stopVoiceInput_frame emit_def appended_append)

lemma recognition_onerror_frame:
  "outstanding (recognition_onerror e s) = outstanding s \<and>
   input_disabled (recognition_onerror e s) = input_disabled s \<and>
   isWaitingForResponse (recognition_onerror e s) = isWaitingForResponse s \<and>
   appended (log (recognition_onerror e s)) = appended (log s)"
  by (simp add: recognition_onerror_def showError_def emit_def Let_def appended_append)

lemma one_in_flight_step: "one_in_flight s \<Longrightarrow> one_in_flight (step h te s)"
proof (cases te)
  case (Pair now e)
  assume inv: "one_in_flight s"
  show ?thesis
  proof (cases e)
    case Submit
    show ?thesis
    proof (cases "sendable s")
      case True
      then have "outstanding s = []"
        using inv by (auto simp add: sendable_def one_in_flight_def)
      then show ?thesis
        using handleSendMessage_sendable [OF True, of h now]
        by (simp add: Pair Submit step_def one_in_flight_def)
    next
      case False
      then show ?thesis
        using inv by (simp add: Pair Submit step_def handleSendMessage_blocked one_in_flight_def)
    qed
  next
    case (Settle r)
    show ?thesis
    proof (cases "outstanding s")
      case Nil
      then show ?thesis using inv by (simp add: Pair Settle step_def)
    next
      case (Cons req rest)
      then have "rest = []" using inv by (simp add: one_in_flight_def)
      then show ?thesis
        using on_reply_flags [of h now req r "s\<lparr>outstanding := []\<rparr>"]
        by (simp add: Pair Settle step_def Cons one_in_flight_def)
    qed
  next
    case (Input t)
    then show ?thesis using inv by (simp add: Pair step_def one_in_flight_def)
  next
    case Stop_voice
    then show ?thesis using inv by (simp add: Pair step_def one_in_flight_def stopVoiceInput_frame)
  next
    case Toggle_voice
    then show ?thesis using inv by (simp add: Pair step_def one_in_flight_def toggleVoiceInput_frame)
  next
    case Recognition_start
    then show ?thesis using inv by (simp add: Pair step_def one_in_flight_def)
  next
    case Recognition_end
    then show ?thesis using inv by (simp add: Pair step_def one_in_flight_def)
  next
    case (Recognition_error err)
    then show ?thesis
      using inv by (simp add: Pair step_def one_in_flight_def recognition_onerror_frame)
  qed
qed

lemma one_in_flight_run: "one_in_flight s \<Longrightarrow> one_in_flight (run h tes s)"
  by (induction tes arbitrary: s) (simp_all add: one_in_flight_step)

lemma appended_handleSendMessage:
  "sendable s \<Longrightarrow>
     appended (log (handleSendMessage h now s)) = appended (log s) @ [echo h now s]"
  using handleSendMessage_sendable [of s h now]
  by (simp add: appended_append appended_status_effect)

lemma echo_latest_step:
  assumes "one_in_flight s" and "echo_latest s"
  shows "echo_latest (step h te s)"
proof (cases te)
  case (Pair now e)
  show ?thesis
  proof (cases e)
    case Submit
    show ?thesis
    proof (cases "sendable s")
      case True
      then have "outstanding s = []"
        using assms(1) by (auto simp add: sendable_def one_in_flight_def)
      then show ?thesis
        using handleSendMessage_sendable [OF True, of h now] appended_handleSendMessage [OF True, of h now]
        by (simp add: Pair Submit step_def echo_latest_def echo_def sent_def)
    next
      case False
      then show ?thesis
        using assms(2)
        by (simp add: Pair Submit step_def handleSendMessage_blocked echo_latest_def appended_append)
    qed
  next
    case (Settle r)
    show ?thesis
    proof (cases "outstanding s")
      case Nil
      then show ?thesis using assms(2) by (simp add: Pair Settle step_def)
    next
      case (Cons req rest)
      then have "rest = []" using assms(1) by (simp add: one_in_flight_def)
      then show ?thesis
        using on_reply_flags [of h now req r "s\<lparr>outstanding := []\<rparr>"]
        by (simp add: Pair Settle step_def Cons echo_latest_def)
    qed
  next
    case (Input t)
    then show ?thesis using assms(2) by (simp add: Pair step_def echo_latest_def)
  next
    case Stop_voice
    then show ?thesis using assms(2) by (simp add: Pair step_def echo_latest_def stopVoiceInput_frame)
  next
    case Toggle_voice
    then show ?thesis using assms(2) by (simp add: Pair step_def echo_latest_def toggleVoiceInput_frame)
  next
    case Recognition_start
    then show ?thesis using assms(2) by (simp add: Pair step_def echo_latest_def)
  next
    case Recognition_end
    then show ?thesis using assms(2) by (simp add: Pair step_def echo_latest_def)
  next
    case (Recognition_error err)
    then show ?thesis
      using assms(2) by (simp add: Pair step_def echo_latest_def recognition_onerror_frame)
  qed
qed

lemma in_order_run: "in_order s \<Longrightarrow> in_order (run h tes s)"
  by (induction tes arbitrary: s) (simp_all add: in_order_def one_in_flight_step echo_latest_step)

lemma echo_latest_last:
  "echo_latest s \<Longrightarrow> outstanding s = req # rest \<Longrightarrow>
     appended (log s) \<noteq> [] \<and> role (last (appended (log s))) = ''user'' \<and>
     content (last (appended (log s))) = req_body req"
  by (simp add: echo_latest_def)

subsection \<open>Evaluation on the concrete pages\<close>

lemma trim_hello: "trim ''hello'' = ''hello''"
  by (simp add: trim_def is_space_def code_def)

lemma trim_blank: "trim [CHR '' '', CHR 0x09, CHR 0x0A] = []"
  by (simp add: trim_def is_space_def code_def)

lemma sendable_demo: "sendable (demo_input ''hello'' (Some ''7''))"
  by (simp add: sendable_def demo_input_def fresh_page_def trim_hello truthy_id_def)

lemma one_in_flight_demo: "one_in_flight (demo_input t cid)"
  by (simp add: one_in_flight_def demo_input_def fresh_page_def)

lemma in_order_demo: "in_order (demo_input t cid)"
  by (simp add: in_order_def one_in_flight_def echo_latest_def demo_input_def fresh_page_def)

lemma log_demo_input: "log (demo_input t cid) = []"
  by (simp add: demo_input_def fresh_page_def)

lemma echo_demo:
  "echo demo_host now (demo_input ''hello'' cid) =
     \<lparr>role = ''user'', content = ''hello'', timestamp = ''2024-01-01T10:30:00.000Z''\<rparr>"
  by (simp add: echo_def demo_input_def fresh_page_def trim_hello demo_host_def)

lemma outstanding_demo_sent:
  "outstanding demo_sent = [\<lparr>req_conversation = ''7'', req_body = ''hello''\<rparr>]"
  using handleSendMessage_sendable [OF sendable_demo, of demo_host 0]
  by (simp add: demo_sent_def sent_def demo_input_def fresh_page_def trim_hello id_text_def)

lemma in_order_demo_sent: "in_order demo_sent"
  using in_order_run [OF in_order_demo, of demo_host "[(0, Submit)]" "''hello''" "Some ''7''"]
  by (simp add: demo_sent_def step_def)

lemma trim_one_two_three: "trim ''one two three'' = ''one two three''"
  by (simp add: trim_def is_space_def code_def)

lemma sendable_demo_odd: "sendable (demo_input ''one two three'' (Some demo_odd_id))"
  by (simp add: sendable_def demo_input_def fresh_page_def trim_one_two_three truthy_id_def
      demo_odd_id_def)

lemma outstanding_demo_sent_odd: "outstanding demo_sent_odd = [demo_request_odd]"
  using handleSendMessage_sendable [OF sendable_demo_odd, of demo_host 0]
  by (simp add: demo_sent_odd_def demo_request_odd_def sent_def demo_input_def fresh_page_def
      trim_one_two_three id_text_def)

lemma in_order_demo_sent_odd: "in_order demo_sent_odd"
  using in_order_run [OF in_order_demo, of demo_host "[(0, Submit)]" "''one two three''"
      "Some demo_odd_id"]
  by (simp add: demo_sent_odd_def step_def)

lemma lookup_error_demo_odd:
  "lookup_error demo_host demo_request_odd (demo_input ''one two three'' (Some demo_odd_id)) =
     Some ''not a valid selector''"
  by (simp add: lookup_error_def update_title_def sidebar_lookup_def plain_id_def code_def
      demo_request_odd_def demo_input_def fresh_page_def demo_odd_id_def demo_host_def
      id_text_def emit_def Let_def eval_nat_numeral)

lemma lookup_error_demo_sent_odd:
  "lookup_error demo_host demo_request_odd demo_sent_odd = Some ''not a valid selector''"
proof -
  have "lookup_error demo_host demo_request_odd demo_sent_odd =
        lookup_error demo_host demo_request_odd (demo_input ''one two three'' (Some demo_odd_id))"
    unfolding lookup_error_def demo_sent_odd_def
    using handleSendMessage_sendable [OF sendable_demo_odd, of demo_host 0]
    by (intro update_title_depends) simp_all
  then show ?thesis
    by (simp add: lookup_error_demo_odd)
qed

lemma trim_a_b: "trim ''a  b'' = ''a  b''"
  by (simp add: trim_def is_space_def code_def)

lemma sendable_a_b: "sendable (demo_input ''a  b'' (Some ''7''))"
  by (simp add: sendable_def demo_input_def fresh_page_def trim_a_b truthy_id_def)

lemma strength_abc: "strength ''abc'' = 1"
  by (simp add: strength_def bump_def is_upper_def is_lower_def is_digit_def is_special_def code_def)

lemma strength_Abcdefgh1: "strength ''Abcdefgh1'' = 4"
  by (simp add: strength_def bump_def is_upper_def is_lower_def is_digit_def is_special_def code_def)

lemma strength_Ab1: "strength ''Ab1!Ab1!Ab1!'' = 6"
  by (simp add: strength_def bump_def is_upper_def is_lower_def is_digit_def is_special_def code_def)

section \<open>The claims\<close>

subsection \<open>C1\<close>

text \<open>
  C1. At most one chat-message request is in flight at any time, and the input is
  disabled exactly while one is outstanding: the discipline \<open>one_in_flight\<close> is kept by
  every sequence of events. An accepted submission disables the input and sets the flag
  before it sends the request, and every completion (success, non-success status,
  rejection) enables the input and clears the flag.
\<close>

theorem single_request_in_flight:
  "(one_in_flight s \<longrightarrow> one_in_flight (run h tes s)) \<and>
   (sendable s \<longrightarrow>
      log (handleSendMessage h now s) =
        log s @ [Prevent_default, Set_input_disabled True, Set_waiting True] @
          status_effect ''Thinking...'' ''loading'' s @
          [Append_message (echo h now s), Set_timeout 10 Add_visible, Clear_input,
           Fetch (sent s)] \<and>
      input_disabled (handleSendMessage h now s) \<and>
      isWaitingForResponse (handleSendMessage h now s) \<and>
      outstanding (handleSendMessage h now s) = outstanding s @ [sent s]) \<and>
   \<not> input_disabled (on_reply h now req r s) \<and>
   \<not> isWaitingForResponse (on_reply h now req r s)"
  using handleSendMessage_sendable [of s h now] on_reply_flags [of h now req r s]
  by (simp add: one_in_flight_run)

theorem single_request_in_flight_witness:
  "one_in_flight (demo_input ''hello'' (Some ''7'')) \<and>
   one_in_flight (run demo_host [(0, Submit), (1, Input ''again''), (2, Submit)]
                    (demo_input ''hello'' (Some ''7''))) \<and>
   sendable (demo_input ''hello'' (Some ''7'')) \<and>
   input_disabled (handleSendMessage demo_host 0 (demo_input ''hello'' (Some ''7''))) \<and>
   isWaitingForResponse (handleSendMessage demo_host 0 (demo_input ''hello'' (Some ''7''))) \<and>
   outstanding (handleSendMessage demo_host 0 (demo_input ''hello'' (Some ''7''))) =
     [\<lparr>req_conversation = ''7'', req_body = ''hello''\<rparr>]"
  using single_request_in_flight
    [of "demo_input ''hello'' (Some ''7'')" demo_host "[(0, Submit), (1, Input ''again''), (2, Submit)]"
        0 "\<lparr>req_conversation = ''7'', req_body = ''hello''\<rparr>" "Rejected ''Failed to fetch''"]
  by (simp add: one_in_flight_demo sendable_demo)
     (simp add: sent_def demo_input_def fresh_page_def trim_hello id_text_def)

subsection \<open>C2\<close>

text \<open>
  C2 (as amended). When the trimmed text is not empty, no request is in flight and a
  conversation identifier is set, the handler renders exactly one new message, with role
  user, before it sends the request. Along every sequence of events, while a request is
  outstanding it is the only one and the last message rendered is its echo. When that
  request settles with status success and a message of role assistant, exactly one new
  message, with role assistant, is rendered right after the echo; when it settles with
  status success and no message, no message is rendered. In both cases the only other
  element appended is the error element of an error thrown by the sidebar lookup, and
  there is none when the identifier stays inside the quotes of the selector.
\<close>

theorem echo_before_request_reply_after:
  "(sendable s \<longrightarrow>
      log (handleSendMessage h now s) =
        log s @ [Prevent_default, Set_input_disabled True, Set_waiting True] @
          status_effect ''Thinking...'' ''loading'' s @
          [Append_message (echo h now s), Set_timeout 10 Add_visible, Clear_input,
           Fetch (sent s)] \<and>
      appended (log (handleSendMessage h now s)) = appended (log s) @ [echo h now s] \<and>
      chatMessages (handleSendMessage h now s) =
        chatMessages s @ [message_element h now (echo h now s)] \<and>
      className (message_element h now (echo h now s)) = ''message user'' \<and>
      outstanding (handleSendMessage h now s) = outstanding s @ [sent s]) \<and>
   (in_order s \<longrightarrow> in_order (run h tes s)) \<and>
   (in_order s \<and> outstanding s = req # rest \<and> role m = ''assistant'' \<longrightarrow>
      role (last (appended (log s))) = ''user'' \<and>
      content (last (appended (log s))) = req_body req \<and>
      appended (log (step h (now, Settle (Json ''success'' (Some m) err)) s)) =
        appended (log s) @ [m] \<and>
      chatMessages (step h (now, Settle (Json ''success'' (Some m) err)) s) =
        chatMessages s @ [message_element h now m] @ caught_elements (lookup_error h req s) \<and>
      className (message_element h now m) = ''message assistant'' \<and>
      outstanding (step h (now, Settle (Json ''success'' (Some m) err)) s) = []) \<and>
   (in_order s \<and> outstanding s = req # rest \<longrightarrow>
      appended (log (step h (now, Settle (Json ''success'' None err)) s)) = appended (log s) \<and>
      chatMessages (step h (now, Settle (Json ''success'' None err)) s) =
        chatMessages s @ caught_elements (lookup_error h req s) \<and>
      outstanding (step h (now, Settle (Json ''success'' None err)) s) = []) \<and>
   (plain_id (id_text (currentConversationId s)) \<longrightarrow>
      caught_elements (lookup_error h req s) = [])"
proof -
  have a: "sendable s \<longrightarrow>
      log (handleSendMessage h now s) =
        log s @ [Prevent_default, Set_input_disabled True, Set_waiting True] @
          status_effect ''Thinking...'' ''loading'' s @
          [Append_message (echo h now s), Set_timeout 10 Add_visible, Clear_input,
           Fetch (sent s)] \<and>
      appended (log (handleSendMessage h now s)) = appended (log s) @ [echo h now s] \<and>
      chatMessages (handleSendMessage h now s) =
        chatMessages s @ [message_element h now (echo h now s)] \<and>
      className (message_element h now (echo h now s)) = ''message user'' \<and>
      outstanding (handleSendMessage h now s) = outstanding s @ [sent s]"
    using handleSendMessage_sendable [of s h now] appended_handleSendMessage [of s h now]
    by (simp add: message_element_def echo_def)
  have b: "in_order s \<longrightarrow> in_order (run h tes s)"
    by (simp add: in_order_run)
  have c: "in_order s \<and> outstanding s = req # rest \<and> role m = ''assistant'' \<longrightarrow>
      role (last (appended (log s))) = ''user'' \<and>
      content (last (appended (log s))) = req_body req \<and>
      appended (log (step h (now, Settle (Json ''success'' (Some m) err)) s)) =
        appended (log s) @ [m] \<and>
      chatMessages (step h (now, Settle (Json ''success'' (Some m) err)) s) =
        chatMessages s @ [message_element h now m] @ caught_elements (lookup_error h req s) \<and>
      className (message_element h now m) = ''message assistant'' \<and>
      outstanding (step h (now, Settle (Json ''success'' (Some m) err)) s) = []"
  proof
    assume h: "in_order s \<and> outstanding s = req # rest \<and> role m = ''assistant''"
    then have r: "rest = []" by (auto simp add: in_order_def one_in_flight_def)
    have e: "role (last (appended (log s))) = ''user'' \<and>
             content (last (appended (log s))) = req_body req"
      using h echo_latest_last [of s req rest] by (simp add: in_order_def)
    show "role (last (appended (log s))) = ''user'' \<and>
      content (last (appended (log s))) = req_body req \<and>
      appended (log (step h (now, Settle (Json ''success'' (Some m) err)) s)) =
        appended (log s) @ [m] \<and>
      chatMessages (step h (now, Settle (Json ''success'' (Some m) err)) s) =
        chatMessages s @ [message_element h now m] @ caught_elements (lookup_error h req s) \<and>
      className (message_element h now m) = ''message assistant'' \<and>
      outstanding (step h (now, Settle (Json ''success'' (Some m) err)) s) = []"
      using h r e on_reply_success [of h now req m err "s\<lparr>outstanding := []\<rparr>"]
        on_reply_flags [of h now req "Json ''success'' (Some m) err" "s\<lparr>outstanding := []\<rparr>"]
      by (simp add: step_def message_element_def lookup_error_settled)
  qed
  have d: "in_order s \<and> outstanding s = req # rest \<longrightarrow>
      appended (log (step h (now, Settle (Json ''success'' None err)) s)) = appended (log s) \<and>
      chatMessages (step h (now, Settle (Json ''success'' None err)) s) =
        chatMessages s @ caught_elements (lookup_error h req s) \<and>
      outstanding (step h (now, Settle (Json ''success'' None err)) s) = []"
  proof
    assume h: "in_order s \<and> outstanding s = req # rest"
    then have r: "rest = []" by (auto simp add: in_order_def one_in_flight_def)
    show "appended (log (step h (now, Settle (Json ''success'' None err)) s)) = appended (log s) \<and>
      chatMessages (step h (now, Settle (Json ''success'' None err)) s) =
        chatMessages s @ caught_elements (lookup_error h req s) \<and>
      outstanding (step h (now, Settle (Json ''success'' None err)) s) = []"
      using h r on_reply_success_none [of h now req err "s\<lparr>outstanding := []\<rparr>"]
        on_reply_flags [of h now req "Json ''success'' None err" "s\<lparr>outstanding := []\<rparr>"]
      by (simp add: step_def lookup_error_settled)
  qed
  have e: "plain_id (id_text (currentConversationId s)) \<longrightarrow>
      caught_elements (lookup_error h req s) = []"
    by (simp add: plain_id_no_error caught_elements_def)
  from a b c d e show ?thesis by blast
qed

text \<open>
  The theorem at two pages: one whose identifier is \<^verbatim>\<open>7\<close>, where the reply is the only
  element appended, and one whose identifier is \<^verbatim>\<open>a"b\<close>, where the sidebar lookup
  throws after the reply is rendered and the error element follows it.
\<close>

theorem echo_before_request_reply_after_witness:
  "sendable (demo_input ''hello'' (Some ''7'')) \<and>
   appended (log (handleSendMessage demo_host 0 (demo_input ''hello'' (Some ''7'')))) =
     [\<lparr>role = ''user'', content = ''hello'', timestamp = ''2024-01-01T10:30:00.000Z''\<rparr>] \<and>
   in_order demo_sent \<and>
   outstanding demo_sent = [\<lparr>req_conversation = ''7'', req_body = ''hello''\<rparr>] \<and>
   role demo_reply = ''assistant'' \<and>
   plain_id (id_text (currentConversationId demo_sent)) \<and>
   appended (log (step demo_host (5, Settle (Json ''success'' (Some demo_reply) None)) demo_sent)) =
     [\<lparr>role = ''user'', content = ''hello'', timestamp = ''2024-01-01T10:30:00.000Z''\<rparr>,
      demo_reply] \<and>
   chatMessages (step demo_host (5, Settle (Json ''success'' (Some demo_reply) None)) demo_sent) =
     chatMessages demo_sent @ [message_element demo_host 5 demo_reply] \<and>
   appended (log (step demo_host (5, Settle (Json ''success'' None None)) demo_sent)) =
     [\<lparr>role = ''user'', content = ''hello'', timestamp = ''2024-01-01T10:30:00.000Z''\<rparr>] \<and>
   outstanding (step demo_host (5, Settle (Json ''success'' (Some demo_reply) None)) demo_sent) = [] \<and>
   in_order demo_sent_odd \<and>
   outstanding demo_sent_odd = [demo_request_odd] \<and>
   chatMessages (step demo_host (5, Settle (Json ''success'' (Some demo_reply) None)) demo_sent_odd) =
     chatMessages demo_sent_odd @
       [message_element demo_host 5 demo_reply,
        error_element ''Error sending message: not a valid selector'']"
proof -
  have "appended (log (handleSendMessage demo_host 0 (demo_input ''hello'' (Some ''7'')))) =
          appended (log (demo_input ''hello'' (Some ''7''))) @
            [echo demo_host 0 (demo_input ''hello'' (Some ''7''))]"
    using echo_before_request_reply_after
      [of "demo_input ''hello'' (Some ''7'')" demo_host 0 "[]"
          "\<lparr>req_conversation = ''7'', req_body = ''hello''\<rparr>" "[]" demo_reply None]
      sendable_demo
    by blast
  then have a0: "appended (log (handleSendMessage demo_host 0 (demo_input ''hello'' (Some ''7'')))) =
     [\<lparr>role = ''user'', content = ''hello'', timestamp = ''2024-01-01T10:30:00.000Z''\<rparr>]"
    by (simp add: echo_demo log_demo_input)
  then have a: "appended (log demo_sent) =
     [\<lparr>role = ''user'', content = ''hello'', timestamp = ''2024-01-01T10:30:00.000Z''\<rparr>]"
    by (simp add: demo_sent_def)
  have b: "role demo_reply = ''assistant''"
    by (simp add: demo_reply_def)
  have p: "plain_id (id_text (currentConversationId demo_sent))"
    using handleSendMessage_sendable [OF sendable_demo, of demo_host 0]
    by (simp add: demo_sent_def demo_input_def fresh_page_def id_text_def plain_id_def code_def)
  have c: "appended (log (step demo_host (5, Settle (Json ''success'' (Some demo_reply) None)) demo_sent)) =
             appended (log demo_sent) @ [demo_reply] \<and>
           chatMessages (step demo_host (5, Settle (Json ''success'' (Some demo_reply) None)) demo_sent) =
             chatMessages demo_sent @ [message_element demo_host 5 demo_reply] \<and>
           appended (log (step demo_host (5, Settle (Json ''success'' None None)) demo_sent)) =
             appended (log demo_sent) \<and>
           outstanding (step demo_host (5, Settle (Json ''success'' (Some demo_reply) None)) demo_sent) = []"
    using echo_before_request_reply_after
      [of demo_sent demo_host 5 "[]" "\<lparr>req_conversation = ''7'', req_body = ''hello''\<rparr>" "[]"
          demo_reply None]
      b p in_order_demo_sent outstanding_demo_sent
    by simp
  have d: "chatMessages (step demo_host (5, Settle (Json ''success'' (Some demo_reply) None)) demo_sent_odd) =
     chatMessages demo_sent_odd @ [message_element demo_host 5 demo_reply] @
       caught_elements (lookup_error demo_host demo_request_odd demo_sent_odd)"
    using echo_before_request_reply_after
      [of demo_sent_odd demo_host 5 "[]" demo_request_odd "[]" demo_reply None]
      b in_order_demo_sent_odd outstanding_demo_sent_odd
    by blast
  show ?thesis
    using a0 a b p c d sendable_demo in_order_demo_sent outstanding_demo_sent
      in_order_demo_sent_odd outstanding_demo_sent_odd
    by (simp add: lookup_error_demo_sent_odd caught_elements_def)
qed

text \<open>The claim as stated fails: with text, no request in flight and no conversation
  identifier, nothing is rendered and nothing is sent.\<close>

theorem submit_without_conversation_counterexample:
  "trim (input_value (demo_input ''hello'' None)) = ''hello'' \<and>
   isWaitingForResponse (demo_input ''hello'' None) = False \<and>
   outstanding (demo_input ''hello'' None) = [] \<and>
   chatMessages (handleSendMessage demo_host 0 (demo_input ''hello'' None)) = [] \<and>
   appended (log (handleSendMessage demo_host 0 (demo_input ''hello'' None))) = [] \<and>
   outstanding (handleSendMessage demo_host 0 (demo_input ''hello'' None)) = []"
  by (simp add: handleSendMessage_def demo_input_def fresh_page_def trim_hello truthy_id_def
      emit_def Let_def)

subsection \<open>C3\<close>

text \<open>
  C3. A submission with empty or white-space-only text, or while a request is in flight,
  or with no conversation identifier, does nothing but cancel the form's default action:
  no message is rendered, no request is sent, no error is shown.
\<close>

theorem blocked_submit_is_silent_noop:
  "trim (input_value s) = [] \<or> isWaitingForResponse s \<or> \<not> truthy_id (currentConversationId s) \<Longrightarrow>
     handleSendMessage h now s = s\<lparr>log := log s @ [Prevent_default]\<rparr> \<and>
     chatMessages (handleSendMessage h now s) = chatMessages s \<and>
     outstanding (handleSendMessage h now s) = outstanding s"
  using handleSendMessage_blocked [of s h now] by (auto simp add: sendable_def)

theorem blocked_submit_is_silent_noop_witness:
  "trim (input_value (demo_input [CHR '' '', CHR 0x09, CHR 0x0A] (Some ''7''))) = [] \<and>
   handleSendMessage demo_host 0 (demo_input [CHR '' '', CHR 0x09, CHR 0x0A] (Some ''7'')) =
     (demo_input [CHR '' '', CHR 0x09, CHR 0x0A] (Some ''7''))\<lparr>log := [Prevent_default]\<rparr> \<and>
   isWaitingForResponse ((demo_input ''hello'' (Some ''7''))\<lparr>isWaitingForResponse := True\<rparr>) \<and>
   chatMessages (handleSendMessage demo_host 0
     ((demo_input ''hello'' (Some ''7''))\<lparr>isWaitingForResponse := True\<rparr>)) = [] \<and>
   outstanding (handleSendMessage demo_host 0
     ((demo_input ''hello'' (Some ''7''))\<lparr>isWaitingForResponse := True\<rparr>)) = [] \<and>
   truthy_id (currentConversationId (demo_input ''hello'' None)) = False \<and>
   chatMessages (handleSendMessage demo_host 0 (demo_input ''hello'' None)) = [] \<and>
   outstanding (handleSendMessage demo_host 0 (demo_input ''hello'' None)) = []"
  using blocked_submit_is_silent_noop [of "demo_input [CHR '' '', CHR 0x09, CHR 0x0A] (Some ''7'')" demo_host 0]
    blocked_submit_is_silent_noop [of "(demo_input ''hello'' (Some ''7''))\<lparr>isWaitingForResponse := True\<rparr>" demo_host 0]
    blocked_submit_is_silent_noop [of "demo_input ''hello'' None" demo_host 0]
  by (simp add: demo_input_def fresh_page_def trim_blank truthy_id_def)

subsection \<open>C4\<close>

text \<open>
  C4. The renderer's transformation of the assistant content
  \<^verbatim>\<open>"### Title\n- a\n- b\n\nEnd"\<close>, evaluated: the heading element is empty and "Title"
  follows it as plain text, the two items are in one list, and a single line break
  stands before "End".
\<close>

theorem assistant_markup_example:
  "format_assistant ''### Title\<newline>- a\<newline>- b\<newline>\<newline>End'' =
     ''<h3></h3>Title<br><ul><li>a</li><li>b</li></ul><br>End''"
  by (simp add: format_assistant_def regex_defs eval_nat_numeral)

text \<open>The lazy group of the heading pattern never captures anything.\<close>

lemma match_header_empty_capture:
  "match_header (''### '' @ t) = Some (''<h3></h3>'', if starts_with '' ###'' t then 8 else 4)"
  by (cases t) (simp_all add: match_header_def opt_trailer_def starts_with_def)

subsection \<open>C5\<close>

text \<open>
  C5 (as amended). For a message whose role is not assistant the renderer applies no
  markup transformation: the content is placed unchanged into the markup assigned to the
  element.
\<close>

theorem user_content_inserted_verbatim:
  "role m \<noteq> ''assistant'' \<Longrightarrow>
     formattedContent m = content m \<and>
     innerHTML (message_element h now m) =
       message_html (role m) (content m) (timestampStr h now (timestamp m))"
  by (simp add: formattedContent_def message_element_def)

theorem user_content_inserted_verbatim_witness:
  "role \<lparr>role = ''user'', content = ''### T\<newline>- a'', timestamp = ''x''\<rparr> \<noteq> ''assistant'' \<and>
   formattedContent \<lparr>role = ''user'', content = ''### T\<newline>- a'', timestamp = ''x''\<rparr> = ''### T\<newline>- a'' \<and>
   format_assistant ''### T\<newline>- a'' = ''<h3></h3>T<br><ul><li>a</li></ul>''"
  using user_content_inserted_verbatim
    [of "\<lparr>role = ''user'', content = ''### T\<newline>- a'', timestamp = ''x''\<rparr>" demo_host 0]
  by (simp add: format_assistant_def regex_defs eval_nat_numeral)

text \<open>The claim as stated fails: the content \<^verbatim>\<open><b>hi</b>\<close> of a user message reaches the
  element as markup, not as the text that would display it literally.\<close>

theorem user_content_literal_text_counterexample:
  "formattedContent \<lparr>role = ''user'', content = ''<b>hi</b>'', timestamp = ''x''\<rparr> = ''<b>hi</b>'' \<and>
   spec_literal_text ''<b>hi</b>'' = ''&lt;b&gt;hi&lt;/b&gt;'' \<and>
   innerHTML (message_element demo_host 0 \<lparr>role = ''user'', content = ''<b>hi</b>'', timestamp = ''x''\<rparr>) \<noteq>
     message_html ''user'' (spec_literal_text ''<b>hi</b>'') ''Invalid Date''  \<and>
   innerHTML (message_element demo_host 0 \<lparr>role = ''user'', content = ''<b>hi</b>'', timestamp = ''x''\<rparr>) =
     message_html ''user'' ''<b>hi</b>'' ''Invalid Date''"
  by (simp add: formattedContent_def message_element_def message_html_def timestampStr_def
      new_Date_def toLocaleTimeString_def demo_host_def)

subsection \<open>C6\<close>

text \<open>
  C6 (as amended). After a successful reply, when the title is still "New Conversation":
  the user's text is cut at every single space; with more than two pieces the title
  becomes the first five pieces joined by single spaces, followed by "...", and otherwise
  it stays "New Conversation".
\<close>

theorem title_from_space_split_pieces:
  "chatTitle s = ''New Conversation'' \<Longrightarrow>
     chatTitle (on_reply h now req (Json ''success'' mo err) s) =
       (if 2 < length (split_on CHR '' '' (req_body req))
        then join_with '' '' (take 5 (split_on CHR '' '' (req_body req))) @ ''...''
        else ''New Conversation'')"
  by (simp add: on_reply_success_title)

theorem title_from_space_split_pieces_witness:
  "chatTitle (fresh_page (Some ''7'')) = ''New Conversation'' \<and>
   chatTitle (on_reply demo_host 0 \<lparr>req_conversation = ''7'', req_body = ''I want to buy a new car today''\<rparr>
                (Json ''success'' (Some demo_reply) None) (fresh_page (Some ''7''))) =
     ''I want to buy a...'' \<and>
   chatTitle (on_reply demo_host 0 \<lparr>req_conversation = ''7'', req_body = ''hello there''\<rparr>
                (Json ''success'' (Some demo_reply) None) (fresh_page (Some ''7''))) =
     ''New Conversation''"
  using title_from_space_split_pieces
      [of "fresh_page (Some ''7'')" demo_host 0
          "\<lparr>req_conversation = ''7'', req_body = ''I want to buy a new car today''\<rparr>"
          "Some demo_reply" None]
    title_from_space_split_pieces
      [of "fresh_page (Some ''7'')" demo_host 0
          "\<lparr>req_conversation = ''7'', req_body = ''hello there''\<rparr>"
          "Some demo_reply" None]
  by (simp add: fresh_page_def eval_nat_numeral)

text \<open>The claim as stated fails: "a  b" has two whitespace-separated tokens, and the
  title changes.\<close>

theorem title_whitespace_tokens_counterexample:
  "length (spec_ws_tokens ''a  b'') = 2 \<and>
   trim ''a  b'' = ''a  b'' \<and>
   chatTitle (demo_input ''a  b'' (Some ''7'')) = ''New Conversation'' \<and>
   chatTitle (run demo_host
                [(0, Submit), (5, Settle (Json ''success'' (Some demo_reply) None))]
                (demo_input ''a  b'' (Some ''7''))) = ''a  b...''"
proof -
  have o: "outstanding (handleSendMessage demo_host 0 (demo_input ''a  b'' (Some ''7''))) =
             [\<lparr>req_conversation = ''7'', req_body = ''a  b''\<rparr>]"
    using handleSendMessage_sendable [OF sendable_a_b, of demo_host 0]
    by (simp add: sent_def demo_input_def fresh_page_def trim_a_b id_text_def)
  have t: "chatTitle (handleSendMessage demo_host 0 (demo_input ''a  b'' (Some ''7''))) =
             ''New Conversation''"
    using handleSendMessage_sendable [OF sendable_a_b, of demo_host 0]
    by (simp add: demo_input_def fresh_page_def)
  have "chatTitle (run demo_host
                [(0, Submit), (5, Settle (Json ''success'' (Some demo_reply) None))]
                (demo_input ''a  b'' (Some ''7''))) = ''a  b...''"
    by (simp add: step_def o on_reply_success_title t)
  moreover have "length (spec_ws_tokens ''a  b'') = 2"
    by (simp add: spec_ws_tokens_def is_space_def code_def)
  moreover have "chatTitle (demo_input ''a  b'' (Some ''7'')) = ''New Conversation''"
    by (simp add: demo_input_def fresh_page_def)
  ultimately show ?thesis
    by (simp add: trim_a_b)
qed

subsection \<open>C7\<close>

text \<open>
  C7. For a timestamp that does not parse, the \<^verbatim>\<open>try\<close> block does not throw, so the
  handler that would take the current time does not run: the text rendered is
  "Invalid Date".
\<close>

theorem unparseable_timestamp_shows_invalid_date:
  "date_parse h ts = None \<Longrightarrow> timestampStr h now ts = ''Invalid Date''"
  by (simp add: timestampStr_def new_Date_def toLocaleTimeString_def)

theorem unparseable_timestamp_shows_invalid_date_witness:
  "date_parse demo_host ''not a date'' = None \<and>
   timestampStr demo_host 1704105000000 ''not a date'' = ''Invalid Date'' \<and>
   toLocaleTimeString demo_host (Some 1704105000000) = ''10:30 AM''"
  using unparseable_timestamp_shows_invalid_date [of demo_host "''not a date''" 1704105000000]
  by (simp add: demo_host_def toLocaleTimeString_def)

subsection \<open>C8\<close>

text \<open>
  C8. The label shown for a password is "Strong" when the score is at least 5, "Medium"
  when it is at least 3 and "Weak" otherwise; "abc" is labelled "Weak", "Abcdefgh1" is
  labelled "Medium" and "Ab1!Ab1!Ab1!" is labelled "Strong".
\<close>

theorem password_strength_buckets:
  "(5 \<le> strength p \<longrightarrow> strengthLevel p = ''Strong'') \<and>
   (3 \<le> strength p \<and> strength p < 5 \<longrightarrow> strengthLevel p = ''Medium'') \<and>
   (strength p < 3 \<longrightarrow> strengthLevel p = ''Weak'') \<and>
   strengthLevel ''abc'' = ''Weak'' \<and>
   strengthLevel ''Abcdefgh1'' = ''Medium'' \<and>
   strengthLevel ''Ab1!Ab1!Ab1!'' = ''Strong''"
  by (simp add: strengthLevel_def strength_abc strength_Abcdefgh1 strength_Ab1)

theorem password_strength_buckets_witness:
  "5 \<le> strength ''Ab1!Ab1!Ab1!'' \<and> strengthLevel ''Ab1!Ab1!Ab1!'' = ''Strong'' \<and>
   3 \<le> strength ''Abcdefgh1'' \<and> strength ''Abcdefgh1'' < 5 \<and>
   strengthLevel ''Abcdefgh1'' = ''Medium'' \<and>
   strength ''abc'' < 3 \<and> strengthLevel ''abc'' = ''Weak''"
  using password_strength_buckets [of "''abc''"]
  by (simp add: strength_abc strength_Abcdefgh1 strength_Ab1)

subsection \<open>C9\<close>

text \<open>
  C9. When the voice capture is stopped while it is recording (by the stop button, or by
  the voice button), the submit event is scheduled, 300 ms later, if and only if the
  trimmed text of the input is not empty.
\<close>

theorem stop_voice_submits_iff_text:
  "recognition s \<and> isRecording s \<Longrightarrow>
     stopVoiceInput s =
       s\<lparr>log := log s @ (if trim (input_value s) \<noteq> []
                          then [Recognition_stop, Set_timeout 300 Dispatch_submit]
                          else [Recognition_stop])\<rparr> \<and>
     (Set_timeout 300 Dispatch_submit \<in> set (drop (length (log s)) (log (stopVoiceInput s))))
       = (trim (input_value s) \<noteq> []) \<and>
     toggleVoiceInput s = stopVoiceInput s"
  by (simp add: stopVoiceInput_def toggleVoiceInput_def emit_def Let_def)

theorem stop_voice_submits_iff_text_witness:
  "recognition ((demo_input ''hello'' (Some ''7''))\<lparr>isRecording := True\<rparr>) \<and>
   isRecording ((demo_input ''hello'' (Some ''7''))\<lparr>isRecording := True\<rparr>) \<and>
   log (stopVoiceInput ((demo_input ''hello'' (Some ''7''))\<lparr>isRecording := True\<rparr>)) =
     [Recognition_stop, Set_timeout 300 Dispatch_submit] \<and>
   log (stopVoiceInput ((demo_input [CHR '' '', CHR 0x09, CHR 0x0A] (Some ''7''))\<lparr>isRecording := True\<rparr>)) =
     [Recognition_stop]"
  using stop_voice_submits_iff_text [of "(demo_input ''hello'' (Some ''7''))\<lparr>isRecording := True\<rparr>"]
    stop_voice_submits_iff_text
      [of "(demo_input [CHR '' '', CHR 0x09, CHR 0x0A] (Some ''7''))\<lparr>isRecording := True\<rparr>"]
  by (simp add: demo_input_def fresh_page_def trim_hello trim_blank)

subsection \<open>C10\<close>

text \<open>
  C10. When an accepted submission fails (non-success status or rejection), the echo of
  the user's message stays in the list, followed only by the error element; no other
  message is rendered, the input stays empty, the title is unchanged and the input is
  enabled again.
\<close>

theorem failed_submission_frame:
  "sendable s \<and> outstanding s = [] \<and> failed_reply r \<Longrightarrow>
     chatMessages (run h [(now, Submit), (later, Settle r)] s) =
       chatMessages s @ [message_element h now (echo h now s), error_element (failure_text r)] \<and>
     appended (log (run h [(now, Submit), (later, Settle r)] s)) =
       appended (log s) @ [echo h now s] \<and>
     input_value (run h [(now, Submit), (later, Settle r)] s) = [] \<and>
     chatTitle (run h [(now, Submit), (later, Settle r)] s) = chatTitle s \<and>
     \<not> input_disabled (run h [(now, Submit), (later, Settle r)] s) \<and>
     \<not> isWaitingForResponse (run h [(now, Submit), (later, Settle r)] s) \<and>
     outstanding (run h [(now, Submit), (later, Settle r)] s) = []"
proof -
  assume a: "sendable s \<and> outstanding s = [] \<and> failed_reply r"
  let ?s1 = "handleSendMessage h now s"
  let ?s2 = "on_reply h later (sent s) r (?s1\<lparr>outstanding := []\<rparr>)"
  have s1: "outstanding ?s1 = [sent s]" "input_value ?s1 = []" "chatTitle ?s1 = chatTitle s"
    "chatMessages ?s1 = chatMessages s @ [message_element h now (echo h now s)]"
    "appended (log ?s1) = appended (log s) @ [echo h now s]"
    using a handleSendMessage_sendable [of s h now] appended_handleSendMessage [of s h now]
    by simp_all
  have r: "run h [(now, Submit), (later, Settle r)] s = ?s2"
    by (simp add: step_def s1)
  have f: "chatMessages ?s2 = chatMessages s @
             [message_element h now (echo h now s), error_element (failure_text r)]"
    "chatTitle ?s2 = chatTitle s"
    "appended (log ?s2) = appended (log s) @ [echo h now s]"
    using a on_reply_failed [of r h later "sent s" "?s1\<lparr>outstanding := []\<rparr>"]
    by (simp_all add: s1 appended_append appended_status_effect)
  have g: "\<not> input_disabled ?s2" "\<not> isWaitingForResponse ?s2" "outstanding ?s2 = []"
    "input_value ?s2 = []"
    using on_reply_flags [of h later "sent s" r "?s1\<lparr>outstanding := []\<rparr>"]
    by (simp_all add: s1)
  show ?thesis
    unfolding r using f g by simp
qed

theorem failed_submission_frame_witness:
  "sendable (demo_input ''hello'' (Some ''7'')) \<and>
   outstanding (demo_input ''hello'' (Some ''7'')) = [] \<and>
   failed_reply (Json ''error'' None (Some ''Quota exceeded'')) \<and>
   failed_reply (Rejected ''Failed to fetch'') \<and>
   appended (log (run demo_host
       [(0, Submit), (5, Settle (Json ''error'' None (Some ''Quota exceeded'')))]
       (demo_input ''hello'' (Some ''7'')))) =
     [\<lparr>role = ''user'', content = ''hello'', timestamp = ''2024-01-01T10:30:00.000Z''\<rparr>] \<and>
   input_value (run demo_host [(0, Submit), (5, Settle (Rejected ''Failed to fetch''))]
       (demo_input ''hello'' (Some ''7''))) = [] \<and>
   chatTitle (run demo_host [(0, Submit), (5, Settle (Rejected ''Failed to fetch''))]
       (demo_input ''hello'' (Some ''7''))) = ''New Conversation'' \<and>
   input_disabled (run demo_host [(0, Submit), (5, Settle (Rejected ''Failed to fetch''))]
       (demo_input ''hello'' (Some ''7''))) = False"
proof -
  have f: "failed_reply (Json ''error'' None (Some ''Quota exceeded''))"
    "failed_reply (Rejected ''Failed to fetch'')"
    by (simp_all add: failed_reply_def)
  have o: "outstanding (demo_input ''hello'' (Some ''7'')) = []"
    "chatTitle (demo_input ''hello'' (Some ''7'')) = ''New Conversation''"
    by (simp_all add: demo_input_def fresh_page_def)
  show ?thesis
    using failed_submission_frame
        [of "demo_input ''hello'' (Some ''7'')" "Json ''error'' None (Some ''Quota exceeded'')"
            demo_host 0 5]
      failed_submission_frame
        [of "demo_input ''hello'' (Some ''7'')" "Rejected ''Failed to fetch''" demo_host 0 5]
      sendable_demo f o
    by (simp add: echo_demo log_demo_input)
qed

end
